theory Spec2Isabelle
  imports Complex_Main
begin

section \<open>The package scanner (src/lib/package-scanner.ts)\<close>

text \<open>
  A shallow embedding of the vulnerability aggregation, the trust score and the scan loop
  of \<^verbatim>\<open>package-scanner.ts\<close>.

  A JavaScript \<^verbatim>\<open>number\<close> is modelled as a real. Every number the trust score
  computes is a small integer or a quotient of two small integers, and every rounding
  step below is at least 0.05 away from a tie that the exact value does not hit, so the
  values are those of the double arithmetic. NaN and the infinities are outside the model.
  An optional property is an \<open>option\<close>; a string is truthy when it is not empty, a
  number when it is not zero.
\<close>

subsection \<open>Data model\<close>

type_synonym number = real

datatype ecosystem = npm | python | docker

record PackageInfo =
  name :: string
  version :: string
  ecosystem :: ecosystem

text \<open>
  A value of a decoded JSON payload that the program reads without a check of its type:
  a number, a string, a boolean, or an object or array (given by its text). The value
  \<^verbatim>\<open>null\<close> and a missing property are the \<open>None\<close> of an \<open>option\<close>.
\<close>

datatype jsvalue = JNumber number | JString string | JBoolean bool | JObject string

text \<open>
  The severity is declared as one of four literals, but both adapters store the
  lower-cased string of the upstream payload under a type cast, so the field holds
  an arbitrary string at run time.
\<close>

record Vulnerability =
  id_vuln :: string
  severity :: string
  title :: string
  description :: string
  cvss :: "jsvalue option"
  cwe :: "string list"
  references :: "string list"
  fixedIn :: "string option"

record GitHubStats =
  stars :: number
  forks :: number
  watchers :: number
  openIssues :: number
  contributors :: number
  pullRequests :: number
  lastCommit :: "string option"
  createdAt :: string
  defaultBranch :: string
  language :: string
  topics :: "string list"

record DownloadStats =
  lastDay :: "number option"
  lastWeek :: "number option"
  lastMonth :: "number option"
  total_downloads :: "number option"

text \<open>
  The metadata object: the properties the scanner itself reads or writes, and the
  remaining descriptive properties (license, author, homepage, urls, ...) as an
  association list that is only carried along. A \<^verbatim>\<open>Record<string, string>\<close> is a
  list of its own enumerable properties, one entry for each key.
\<close>

record Metadata =
  md_description :: "string option"
  repository :: "string option"
  lastPublish :: "string option"
  dependencies :: "(string \<times> string) list option"
  hasSecurity :: "bool option"
  other_properties :: "(string \<times> string) list"

record TrustScoreBreakdown =
  security :: number
  maintenance :: number
  popularity :: number
  dependencies_pct :: number

record TrustScore =
  score :: number
  breakdown :: TrustScoreBreakdown

subsection \<open>Built-ins of the language\<close>

text \<open>\<^verbatim>\<open>Math.round\<close>: the nearest integer, a tie going up.\<close>

definition Math_round :: "number \<Rightarrow> number" where
  "Math_round x = of_int \<lfloor>x + 1 / 2\<rfloor>"

definition truthy :: "string option \<Rightarrow> bool" where
  "truthy s = (case s of None \<Rightarrow> False | Some t \<Rightarrow> t \<noteq> [])"

text \<open>Truthiness of a value that is present.\<close>

definition truthyValue :: "jsvalue \<Rightarrow> bool" where
  "truthyValue v =
     (case v of
        JNumber x \<Rightarrow> x \<noteq> 0
      | JString s \<Rightarrow> s \<noteq> []
      | JBoolean b \<Rightarrow> b
      | JObject t \<Rightarrow> True)"

text \<open>
  The conversion to a number that a comparison with a number applies to its other
  operand. For a string and for an object it is a parameter \<open>conv\<close> of the model, with
  \<open>None\<close> where the language gives NaN. A comparison with NaN is false.
\<close>

definition ToNumber :: "(jsvalue \<Rightarrow> number option) \<Rightarrow> jsvalue \<Rightarrow> number option" where
  "ToNumber conv v =
     (case v of
        JNumber x \<Rightarrow> Some x
      | JBoolean b \<Rightarrow> Some (if b then 1 else 0)
      | JString s \<Rightarrow> conv v
      | JObject t \<Rightarrow> conv v)"

definition greaterEqual :: "number option \<Rightarrow> number \<Rightarrow> bool" where
  "greaterEqual x k = (case x of None \<Rightarrow> False | Some y \<Rightarrow> y \<ge> k)"

text \<open>
  Time. \<^verbatim>\<open>new Date(s).getTime()\<close> is a parameter \<open>getTime\<close> of the model, the
  milliseconds since the epoch, or \<open>None\<close> where the language gives NaN (a string that is
  no date). \<^verbatim>\<open>Date.now()\<close> is the parameter \<open>now\<close>; the two reads of the clock in one
  call of the trust score are taken to return the same value.
\<close>

definition daysSince :: "int \<Rightarrow> int \<Rightarrow> number" where
  "daysSince now t = real_of_int (now - t) / (1000 * 60 * 60 * 24)"

subsection \<open>Trust score\<close>

text \<open>Lines 867 to 876: the security points.\<close>

definition severityCount :: "string \<Rightarrow> Vulnerability list \<Rightarrow> number" where
  "severityCount s vulnerabilities =
     real (length (filter (\<lambda>v. severity v = s) vulnerabilities))"

definition securityScore :: "Vulnerability list \<Rightarrow> number" where
  "securityScore vulnerabilities =
     max 0 (40 - severityCount ''critical'' vulnerabilities * 15
               - severityCount ''high'' vulnerabilities * 10
               - severityCount ''medium'' vulnerabilities * 5)"

text \<open>Lines 878 to 907: the maintenance points.\<close>

definition publishPenalty :: "(string \<Rightarrow> int option) \<Rightarrow> int \<Rightarrow> string option \<Rightarrow> number" where
  "publishPenalty getTime now lp =
     (case lp of
        None \<Rightarrow> 0
      | Some s \<Rightarrow>
          (if s = [] then 0
           else
             (case getTime s of
                None \<Rightarrow> 0
              | Some t \<Rightarrow>
                  (if daysSince now t > 730 then 15
                   else if daysSince now t > 365 then 10
                   else if daysSince now t > 180 then 5
                   else 0))))"

definition commitBonus :: "(string \<Rightarrow> int option) \<Rightarrow> int \<Rightarrow> string option \<Rightarrow> number" where
  "commitBonus getTime now lc =
     (case lc of
        None \<Rightarrow> 0
      | Some s \<Rightarrow>
          (if s = [] then 0
           else
             (case getTime s of
                None \<Rightarrow> 0
              | Some t \<Rightarrow> (if daysSince now t < 30 then 5 else 0))))"

text \<open>\<^verbatim>\<open>githubStats?.lastCommit\<close>.\<close>

definition lastCommitOf :: "GitHubStats option \<Rightarrow> string option" where
  "lastCommitOf gs = (case gs of None \<Rightarrow> None | Some g \<Rightarrow> lastCommit g)"

definition maintenanceScore ::
  "(string \<Rightarrow> int option) \<Rightarrow> int \<Rightarrow> Metadata \<Rightarrow> GitHubStats option \<Rightarrow> number" where
  "maintenanceScore getTime now metadata githubStats =
     min 25 (max 0 (25 - publishPenalty getTime now (lastPublish metadata)
                       + commitBonus getTime now (lastCommitOf githubStats)))"

text \<open>Lines 909 to 928: the popularity points.\<close>

definition starsPoints :: "GitHubStats option \<Rightarrow> number" where
  "starsPoints githubStats =
     (case githubStats of
        None \<Rightarrow> 0
      | Some g \<Rightarrow>
          (if stars g \<noteq> 0 then
             (if stars g > 10000 then 8
              else if stars g > 1000 then 6
              else if stars g > 100 then 4
              else if stars g > 10 then 2
              else 0)
           else 0))"

definition downloadPoints :: "DownloadStats option \<Rightarrow> number" where
  "downloadPoints downloadStats =
     (case downloadStats of
        None \<Rightarrow> 0
      | Some d \<Rightarrow>
          (case lastMonth d of
             None \<Rightarrow> 0
           | Some m \<Rightarrow>
               (if m \<noteq> 0 then
                  (if m > 1000000 then 7
                   else if m > 100000 then 5
                   else if m > 10000 then 3
                   else if m > 1000 then 1
                   else 0)
                else 0)))"

definition popularityScore :: "GitHubStats option \<Rightarrow> DownloadStats option \<Rightarrow> number" where
  "popularityScore githubStats downloadStats =
     min 20 (5 + starsPoints githubStats + downloadPoints downloadStats)"

text \<open>Lines 930 to 935: the dependency points, a step function of the number of keys.\<close>

definition depCount :: "(string \<times> string) list \<Rightarrow> number" where
  "depCount deps = real (length deps)"

definition dependenciesScore :: "(string \<times> string) list \<Rightarrow> number" where
  "dependenciesScore deps =
     (if depCount deps > 100 then 5
      else if depCount deps > 50 then 10
      else if depCount deps > 20 then 12
      else 15)"

text \<open>Lines 937 to 947: the composite and the four percentages.\<close>

definition totalScore ::
  "(string \<Rightarrow> int option) \<Rightarrow> int \<Rightarrow> Vulnerability list \<Rightarrow> Metadata \<Rightarrow> (string \<times> string) list
     \<Rightarrow> GitHubStats option \<Rightarrow> DownloadStats option \<Rightarrow> number" where
  "totalScore getTime now vulnerabilities metadata deps githubStats downloadStats =
     Math_round (securityScore vulnerabilities
                 + maintenanceScore getTime now metadata githubStats
                 + popularityScore githubStats downloadStats
                 + dependenciesScore deps)"

definition calculateTrustScore ::
  "(string \<Rightarrow> int option) \<Rightarrow> int \<Rightarrow> Vulnerability list \<Rightarrow> Metadata \<Rightarrow> (string \<times> string) list
     \<Rightarrow> GitHubStats option \<Rightarrow> DownloadStats option \<Rightarrow> TrustScore" where
  "calculateTrustScore getTime now vulnerabilities metadata deps githubStats downloadStats =
     \<lparr> score = min 100 (max 0
                 (totalScore getTime now vulnerabilities metadata deps githubStats downloadStats)),
       breakdown =
         \<lparr> security = Math_round ((securityScore vulnerabilities / 40) * 100),
           maintenance = Math_round ((maintenanceScore getTime now metadata githubStats / 25) * 100),
           popularity = Math_round ((popularityScore githubStats downloadStats / 20) * 100),
           dependencies_pct = Math_round ((dependenciesScore deps / 15) * 100) \<rparr> \<rparr>"

subsection \<open>The two advisory sources\<close>

text \<open>\<^verbatim>\<open>String.prototype.toLowerCase\<close>, on the ASCII letters.\<close>

definition lowerChar :: "char \<Rightarrow> char" where
  "lowerChar c =
     (case map_of (zip ''ABCDEFGHIJKLMNOPQRSTUVWXYZ'' ''abcdefghijklmnopqrstuvwxyz'') c of
        None \<Rightarrow> c
      | Some l \<Rightarrow> l)"

definition toLowerCase :: "string \<Rightarrow> string" where
  "toLowerCase s = map lowerChar s"

text \<open>
  A node of the advisory query of source A (lines 621 to 649) and a record of the
  point query of source B, with the properties the adapters read. \<open>events_fixed\<close> is
  \<^verbatim>\<open>affected[0].ranges[0].events\<close>, each event given by its \<^verbatim>\<open>fixed\<close> property.
\<close>

record Advisory =
  ghsaId :: string
  summary :: string
  adv_description :: string
  adv_severity :: "string option"
  cvss_score :: "number option"
  cweIds :: "string list option"
  reference_urls :: "string list option"
  firstPatchedVersion :: "string option"

record OsvVuln =
  osv_id :: string
  osv_summary :: "string option"
  details :: "string option"
  database_specific_severity :: "string option"
  severity0_score :: "jsvalue option"
  cwe_ids :: "string list option"
  osv_references :: "string list option"
  events_fixed :: "string option list option"

text \<open>
  What the program reads from outside: the credential, the decoded replies of the two
  advisory services, the clock and the two conversions of the language that are parameters
  of the model, and the fetchers and the description generator that the
  scan loop awaits. A reply \<open>None\<close> of an advisory service is every path on which the
  adapter returns the empty list: no response after the retries, a body that does not
  decode, a reply without the list, or an exception caught by the adapter. A fetcher
  result \<open>Inl e\<close> is an exception \<open>e\<close> escaping the awaited call.
\<close>

datatype error = TypeError string | Thrown string

record env =
  GITHUB_TOKEN :: "string option"
  githubGraphql :: "string \<Rightarrow> string \<Rightarrow> Advisory list option"
  osvQuery :: "string \<Rightarrow> string \<Rightarrow> string option \<Rightarrow> OsvVuln list option"
  Date_now :: int
  Date_getTime :: "string \<Rightarrow> int option"
  toNumberOf :: "jsvalue \<Rightarrow> number option"
  fetchNpmPackageData :: "string \<Rightarrow> string \<Rightarrow> error + Metadata"
  fetchNpmDownloadStats :: "string \<Rightarrow> error + DownloadStats"
  fetchPypiPackageData :: "string \<Rightarrow> error + Metadata"
  fetchPypiDownloadStats :: "string \<Rightarrow> error + DownloadStats"
  fetchDockerImageData :: "string \<Rightarrow> error + Metadata"
  fetchGitHubStats :: "string \<Rightarrow> error + GitHubStats option"
  generateAIDescription ::
    "string \<Rightarrow> ecosystem \<Rightarrow> Metadata \<Rightarrow> GitHubStats option \<Rightarrow> error + string"

text \<open>Lines 678 to 687: one node of source A as a vulnerability.\<close>

definition githubSeverity :: "string option \<Rightarrow> string" where
  "githubSeverity sev =
     (case sev of
        None \<Rightarrow> ''medium''
      | Some s \<Rightarrow> (if toLowerCase s \<noteq> [] then toLowerCase s else ''medium''))"

definition orEmpty :: "string list option \<Rightarrow> string list" where
  "orEmpty xs = (case xs of None \<Rightarrow> [] | Some ys \<Rightarrow> ys)"

definition githubToVulnerability :: "Advisory \<Rightarrow> Vulnerability" where
  "githubToVulnerability vuln =
     \<lparr> id_vuln = ghsaId vuln,
       severity = githubSeverity (adv_severity vuln),
       title = summary vuln,
       description = adv_description vuln,
       cvss = map_option JNumber (cvss_score vuln),
       cwe = orEmpty (cweIds vuln),
       references = orEmpty (reference_urls vuln),
       fixedIn = firstPatchedVersion vuln \<rparr>"

text \<open>Lines 604 to 692.\<close>

definition fetchGitHubAdvisories :: "env \<Rightarrow> PackageInfo \<Rightarrow> Vulnerability list" where
  "fetchGitHubAdvisories e pkg =
     (if \<not> truthy (GITHUB_TOKEN e) then []
      else if ecosystem pkg \<noteq> npm \<and> ecosystem pkg \<noteq> python then []
      else
        (case githubGraphql e (if ecosystem pkg = npm then ''NPM'' else ''PIP'') (name pkg) of
           None \<Rightarrow> []
         | Some vulns \<Rightarrow> map githubToVulnerability vulns))"

text \<open>Lines 724 to 734: the severity of one record of source B.\<close>

definition osvSeverity ::
  "(jsvalue \<Rightarrow> number option) \<Rightarrow> string option \<Rightarrow> jsvalue option \<Rightarrow> string" where
  "osvSeverity conv tag sc =
     (if truthy tag then toLowerCase (the tag)
      else
        (case sc of
           None \<Rightarrow> ''medium''
         | Some v \<Rightarrow>
             (if truthyValue v then
                (if greaterEqual (ToNumber conv v) 9 then ''critical''
                 else if greaterEqual (ToNumber conv v) 7 then ''high''
                 else if greaterEqual (ToNumber conv v) 4 then ''medium''
                 else ''low'')
              else ''medium'')))"

definition orDefault :: "string option \<Rightarrow> string \<Rightarrow> string" where
  "orDefault s d = (if truthy s then the s else d)"

definition firstFixed :: "string option list option \<Rightarrow> string option" where
  "firstFixed events =
     (case events of
        None \<Rightarrow> None
      | Some es \<Rightarrow> (case find truthy es of None \<Rightarrow> None | Some f \<Rightarrow> f))"

definition osvToVulnerability :: "(jsvalue \<Rightarrow> number option) \<Rightarrow> OsvVuln \<Rightarrow> Vulnerability" where
  "osvToVulnerability conv vuln =
     \<lparr> id_vuln = osv_id vuln,
       severity = osvSeverity conv (database_specific_severity vuln) (severity0_score vuln),
       title = orDefault (osv_summary vuln) ''Security vulnerability'',
       description =
         orDefault (details vuln) (orDefault (osv_summary vuln) ''No description available''),
       cvss = severity0_score vuln,
       cwe = orEmpty (cwe_ids vuln),
       references = orEmpty (osv_references vuln),
       fixedIn = firstFixed (events_fixed vuln) \<rparr>"

text \<open>Lines 694 to 751.\<close>

definition osvEcosystem :: "ecosystem \<Rightarrow> string" where
  "osvEcosystem eco = (case eco of npm \<Rightarrow> ''npm'' | python \<Rightarrow> ''PyPI'' | docker \<Rightarrow> ''Docker'')"

definition fetchOSVVulnerabilities :: "env \<Rightarrow> PackageInfo \<Rightarrow> Vulnerability list" where
  "fetchOSVVulnerabilities e pkg =
     (case osvQuery e (name pkg) (osvEcosystem (ecosystem pkg))
             (if version pkg = ''latest'' then None else Some (version pkg)) of
        None \<Rightarrow> []
      | Some vulns \<Rightarrow> map (osvToVulnerability (toNumberOf e)) (take 10 vulns))"

subsection \<open>The fallback table and the merge\<close>

text \<open>Lines 754 to 815.\<close>

definition FALLBACK_VULNERABILITIES :: "(string \<times> Vulnerability list) list" where
  "FALLBACK_VULNERABILITIES =
     [ (''lodash'',
        [\<lparr> id_vuln = ''CVE-2021-23337'', severity = ''high'', title = ''Command Injection'',
           description =
             ''Lodash versions prior to 4.17.21 are vulnerable to Command Injection via template.'',
           cvss = Some (JNumber (72 / 10)), cwe = [''CWE-78''],
           references = [''https://nvd.nist.gov/vuln/detail/CVE-2021-23337''],
           fixedIn = Some ''4.17.21'' \<rparr>]),
       (''express'',
        [\<lparr> id_vuln = ''CVE-2022-24999'', severity = ''medium'', title = ''Open Redirect'',
           description = ''Express.js vulnerable to open redirect via malformed URLs.'',
           cvss = Some (JNumber (61 / 10)), cwe = [''CWE-601''],
           references = [''https://nvd.nist.gov/vuln/detail/CVE-2022-24999''],
           fixedIn = Some ''4.17.3'' \<rparr>]),
       (''django'',
        [\<lparr> id_vuln = ''CVE-2023-23969'', severity = ''critical'', title = ''SQL Injection'',
           description = ''Django 3.2 before 3.2.18 allows SQL injection.'',
           cvss = Some (JNumber (98 / 10)), cwe = [''CWE-89''],
           references = [''https://nvd.nist.gov/vuln/detail/CVE-2023-23969''],
           fixedIn = Some ''3.2.18'' \<rparr>]),
       (''requests'',
        [\<lparr> id_vuln = ''CVE-2023-32681'', severity = ''medium'',
           title = ''Unintended Proxy Authentication'',
           description = ''Requests library can leak Proxy-Authorization headers.'',
           cvss = Some (JNumber (61 / 10)), cwe = [''CWE-200''],
           references = [''https://nvd.nist.gov/vuln/detail/CVE-2023-32681''],
           fixedIn = Some ''2.31.0'' \<rparr>]),
       (''nginx'',
        [\<lparr> id_vuln = ''CVE-2021-23017'', severity = ''high'',
           title = ''Off-by-one Buffer Overflow'',
           description = ''Nginx DNS resolver off-by-one heap write.'',
           cvss = Some (JNumber (81 / 10)), cwe = [''CWE-193''],
           references = [''https://nvd.nist.gov/vuln/detail/CVE-2021-23017''],
           fixedIn = Some ''1.20.1'' \<rparr>]) ]"

text \<open>
  The table is an object literal, so \<^verbatim>\<open>FALLBACK_VULNERABILITIES[pkg.name]\<close> is a
  property read: it finds an own property, and otherwise follows the prototype chain to
  \<^verbatim>\<open>Object.prototype\<close>, whose members (functions, and the prototype object itself
  for \<^verbatim>\<open>__proto__\<close>) are all truthy and none is an array.
\<close>

definition Object_prototype_properties :: "string list" where
  "Object_prototype_properties =
     [''constructor'', ''hasOwnProperty'', ''isPrototypeOf'', ''propertyIsEnumerable'',
      ''toLocaleString'', ''toString'', ''valueOf'', ''__proto__'',
      ''__defineGetter__'', ''__defineSetter__'', ''__lookupGetter__'', ''__lookupSetter__'']"

datatype 'a property = Undefined | Own 'a | Inherited string

definition getProperty :: "(string \<times> 'a) list \<Rightarrow> string \<Rightarrow> 'a property" where
  "getProperty obj k =
     (case map_of obj k of
        Some v \<Rightarrow> Own v
      | None \<Rightarrow> (if k \<in> set Object_prototype_properties then Inherited k else Undefined))"

text \<open>
  Lines 824 to 829 and 837 to 842: the same loop over each source, on the list built so
  far and the set of the ids seen.
\<close>

fun pushUnseen ::
  "Vulnerability list \<Rightarrow> string set \<times> Vulnerability list \<Rightarrow> string set \<times> Vulnerability list" where
  "pushUnseen [] st = st"
| "pushUnseen (vuln # rest) (seenIds, vulnerabilities) =
     (if id_vuln vuln \<notin> seenIds
      then pushUnseen rest (insert (id_vuln vuln) seenIds, vulnerabilities @ [vuln])
      else pushUnseen rest (seenIds, vulnerabilities))"

definition mergeSources :: "Vulnerability list \<Rightarrow> Vulnerability list \<Rightarrow> Vulnerability list" where
  "mergeSources githubVulns osvVulns =
     snd (pushUnseen osvVulns (pushUnseen githubVulns ({}, [])))"

text \<open>
  Lines 817 to 853. The value returned is the merged array, an array of the table, or,
  for a name that \<^verbatim>\<open>Object.prototype\<close> defines, that member.
\<close>

datatype fetched = Array "Vulnerability list" | PrototypeMember string

definition fetchVulnerabilities :: "env \<Rightarrow> PackageInfo \<Rightarrow> fetched" where
  "fetchVulnerabilities e pkg =
     (let vulnerabilities =
            mergeSources (fetchGitHubAdvisories e pkg) (fetchOSVVulnerabilities e pkg)
      in if vulnerabilities = [] then
           (case getProperty FALLBACK_VULNERABILITIES (name pkg) of
              Own entries \<Rightarrow> Array entries
            | Inherited k \<Rightarrow> PrototypeMember k
            | Undefined \<Rightarrow> Array vulnerabilities)
         else Array vulnerabilities)"

subsection \<open>The scan loop\<close>

record PackageAnalysis =
  package :: PackageInfo
  pa_vulnerabilities :: "Vulnerability list"
  trustScore :: number
  trustScoreBreakdown :: TrustScoreBreakdown
  metadata :: Metadata
  githubStats :: "GitHubStats option"
  downloadStats :: "DownloadStats option"
  aiDescription :: "string option"

definition emptyMetadata :: Metadata where
  "emptyMetadata =
     \<lparr> md_description = None, repository = None, lastPublish = None, dependencies = None,
       hasSecurity = None, other_properties = [] \<rparr>"

definition emptyDownloadStats :: DownloadStats where
  "emptyDownloadStats =
     \<lparr> lastDay = None, lastWeek = None, lastMonth = None, total_downloads = None \<rparr>"

definition bind_err :: "error + 'a \<Rightarrow> ('a \<Rightarrow> error + 'b) \<Rightarrow> error + 'b" where
  "bind_err r f = (case r of Inl e \<Rightarrow> Inl e | Inr x \<Rightarrow> f x)"

text \<open>Lines 964 to 976.\<close>

definition fetchPackageData :: "env \<Rightarrow> PackageInfo \<Rightarrow> error + Metadata \<times> DownloadStats" where
  "fetchPackageData e pkg =
     (case ecosystem pkg of
        npm \<Rightarrow>
          bind_err (fetchNpmPackageData e (name pkg) (version pkg)) (\<lambda>md.
          bind_err (fetchNpmDownloadStats e (name pkg)) (\<lambda>ds. Inr (md, ds)))
      | python \<Rightarrow>
          bind_err (fetchPypiPackageData e (name pkg)) (\<lambda>md.
          bind_err (fetchPypiDownloadStats e (name pkg)) (\<lambda>ds. Inr (md, ds)))
      | docker \<Rightarrow>
          bind_err (fetchDockerImageData e (name pkg)) (\<lambda>md. Inr (md, emptyDownloadStats)))"

text \<open>Lines 978 to 985.\<close>

definition fetchRepositoryStats :: "env \<Rightarrow> Metadata \<Rightarrow> error + Metadata \<times> GitHubStats option" where
  "fetchRepositoryStats e md =
     (if truthy (repository md) then
        bind_err (fetchGitHubStats e (the (repository md))) (\<lambda>gs.
          (case gs of
             None \<Rightarrow> Inr (md, None)
           | Some g \<Rightarrow> Inr (md\<lparr>hasSecurity := Some (''security'' \<in> set (topics g))\<rparr>, Some g)))
      else Inr (md, None))"

text \<open>
  Lines 987 to 997: the trust score of what was fetched. \<^verbatim>\<open>vulnerabilities.filter\<close>
  on a value that is no array is a TypeError.
\<close>

definition scoreFetched ::
  "env \<Rightarrow> fetched \<Rightarrow> Metadata \<Rightarrow> GitHubStats option \<Rightarrow> DownloadStats
     \<Rightarrow> error + Vulnerability list \<times> TrustScore" where
  "scoreFetched e fv md gs ds =
     (case fv of
        PrototypeMember k \<Rightarrow> Inl (TypeError ''vulnerabilities.filter is not a function'')
      | Array vulnerabilities \<Rightarrow>
          Inr (vulnerabilities,
               calculateTrustScore (Date_getTime e) (Date_now e) vulnerabilities md
                 (case dependencies md of None \<Rightarrow> [] | Some deps \<Rightarrow> deps) gs (Some ds)))"

text \<open>Lines 963 to 1016: the body of the \<^verbatim>\<open>try\<close>.\<close>

definition analysePackage :: "env \<Rightarrow> PackageInfo \<Rightarrow> error + PackageAnalysis" where
  "analysePackage e pkg =
     bind_err (fetchPackageData e pkg) (\<lambda>(md0, ds).
     bind_err (fetchRepositoryStats e md0) (\<lambda>(md, gs).
     bind_err (scoreFetched e (fetchVulnerabilities e pkg) md gs ds) (\<lambda>(vulnerabilities, ts).
     bind_err (generateAIDescription e (name pkg) (ecosystem pkg) md gs) (\<lambda>ai.
       Inr \<lparr> package = pkg,
             pa_vulnerabilities = vulnerabilities,
             trustScore = score ts,
             trustScoreBreakdown = breakdown ts,
             metadata = md,
             githubStats = gs,
             downloadStats = Some ds,
             aiDescription = Some ai \<rparr>))))"

text \<open>Lines 1019 to 1038: the record pushed by the \<^verbatim>\<open>catch\<close>.\<close>

definition degraded :: "PackageInfo \<Rightarrow> PackageAnalysis" where
  "degraded pkg =
     \<lparr> package = pkg,
       pa_vulnerabilities = [],
       trustScore = 0,
       trustScoreBreakdown =
         \<lparr> security = 0, maintenance = 0, popularity = 0, dependencies_pct = 0 \<rparr>,
       metadata = emptyMetadata\<lparr>md_description := Some ''Error during analysis''\<rparr>,
       githubStats = None,
       downloadStats = None,
       aiDescription = Some ''Unable to generate description due to analysis error'' \<rparr>"

definition scanOne :: "env \<Rightarrow> PackageInfo \<Rightarrow> PackageAnalysis" where
  "scanOne e pkg = (case analysePackage e pkg of Inr r \<Rightarrow> r | Inl err \<Rightarrow> degraded pkg)"

text \<open>
  Lines 954 to 1043: the loop over the index \<open>i\<close>, pushing one record for each package.
  \<open>world i\<close> is what the program reads from outside during iteration \<open>i\<close>: the
  replies and the clock may change from one package to the next.
\<close>

function scanLoop ::
  "(nat \<Rightarrow> env) \<Rightarrow> PackageInfo list \<Rightarrow> nat \<Rightarrow> PackageAnalysis list \<Rightarrow> PackageAnalysis list" where
  "scanLoop world packages i results =
     (if i < length packages
      then scanLoop world packages (i + 1) (results @ [scanOne (world i) (packages ! i)])
      else results)"
  by pat_completeness auto
termination
  by (relation "measure (\<lambda>(world, packages, i, results). length packages - i)") auto

definition scanPackages :: "(nat \<Rightarrow> env) \<Rightarrow> PackageInfo list \<Rightarrow> PackageAnalysis list" where
  "scanPackages world packages = scanLoop world packages 0 []"

subsection \<open>Auxiliary notions and concrete inputs\<close>

text \<open>
  The time a date property stands for: none when the property is absent or empty
  (falsy), or when the string is no date.
\<close>

definition parsedDate :: "(string \<Rightarrow> int option) \<Rightarrow> string option \<Rightarrow> int option" where
  "parsedDate getTime d =
     (case d of None \<Rightarrow> None | Some s \<Rightarrow> (if s = [] then None else getTime s))"

text \<open>A date parser that knows one ISO string, the epoch, and the lengths of time in ms.\<close>

definition isoEpoch :: string where
  "isoEpoch = ''1970-01-01T00:00:00.000Z''"

definition epochOnly :: "string \<Rightarrow> int option" where
  "epochOnly s = (if s = isoEpoch then Some 0 else None)"

definition msPerDay :: int where
  "msPerDay = 1000 * 60 * 60 * 24"

definition publishedAtEpoch :: Metadata where
  "publishedAtEpoch =
     \<lparr> md_description = None, repository = None, lastPublish = Some isoEpoch,
       dependencies = None, hasSecurity = None, other_properties = [] \<rparr>"

definition vulnOf :: "string \<Rightarrow> string \<Rightarrow> string \<Rightarrow> Vulnerability" where
  "vulnOf i s d =
     \<lparr> id_vuln = i, severity = s, title = ''t'', description = d, cvss = None, cwe = [],
       references = [], fixedIn = None \<rparr>"

definition sixtyDependencies :: "(string \<times> string) list" where
  "sixtyDependencies = map (\<lambda>i. (replicate (Suc i) CHR ''d'', ''1.0.0'')) [0..<60]"

definition osvScoreZero :: OsvVuln where
  "osvScoreZero =
     \<lparr> osv_id = ''OSV-2024-1'', osv_summary = None, details = None,
       database_specific_severity = None, severity0_score = Some (JNumber 0),
       cwe_ids = None,
       osv_references = None, events_fixed = None \<rparr>"

text \<open>
  A record of source B as the service gives it: no severity tag, and as the score the
  CVSS vector, a string that is no number.
\<close>

definition cvssVector :: string where
  "cvssVector = ''CVSS:3.1/AV:N/AC:L/PR:N/UI:N/S:U/C:H/I:H/A:H''"

definition osvVectorScore :: OsvVuln where
  "osvVectorScore =
     \<lparr> osv_id = ''OSV-2024-2'', osv_summary = None, details = None,
       database_specific_severity = None, severity0_score = Some (JString cvssVector),
       cwe_ids = None, osv_references = None, events_fixed = None \<rparr>"

text \<open>
  A conversion that knows one numeric string; for every other string, the CVSS vector
  among them, it gives NaN.
\<close>

definition numericString :: "jsvalue \<Rightarrow> number option" where
  "numericString v = (if v = JString ''9.8'' then Some (98 / 10) else None)"

text \<open>Repository statistics whose last commit is the epoch.\<close>

definition committedAtEpoch :: GitHubStats where
  "committedAtEpoch =
     \<lparr> stars = 0, forks = 0, watchers = 0, openIssues = 0, contributors = 0,
       pullRequests = 0, lastCommit = Some isoEpoch, createdAt = isoEpoch,
       defaultBranch = ''main'', language = ''Unknown'', topics = [] \<rparr>"

text \<open>
  A world without network and credentials: every fetcher gives what the fetcher of the
  source returns when each of its requests fails. The download windows of npm are then 0
  (lines 358 to 362), the other results are empty objects, and the description is the
  one of the metadata or the placeholder (line 552).
\<close>

definition zeroDownloadStats :: DownloadStats where
  "zeroDownloadStats =
     \<lparr> lastDay = Some 0, lastWeek = Some 0, lastMonth = Some 0, total_downloads = None \<rparr>"

definition offline :: env where
  "offline =
     \<lparr> GITHUB_TOKEN = None,
       githubGraphql = (\<lambda>eco pkgName. None),
       osvQuery = (\<lambda>pkgName eco ver. None),
       Date_now = 0,
       Date_getTime = epochOnly,
       toNumberOf = numericString,
       fetchNpmPackageData = (\<lambda>pkgName ver. Inr emptyMetadata),
       fetchNpmDownloadStats = (\<lambda>pkgName. Inr zeroDownloadStats),
       fetchPypiPackageData = (\<lambda>pkgName. Inr emptyMetadata),
       fetchPypiDownloadStats = (\<lambda>pkgName. Inr emptyDownloadStats),
       fetchDockerImageData = (\<lambda>pkgName. Inr emptyMetadata),
       fetchGitHubStats = (\<lambda>url. Inr None),
       generateAIDescription =
         (\<lambda>pkgName eco md gs.
            Inr (orDefault (md_description md) ''No description available'')) \<rparr>"

definition pkgConstructor :: PackageInfo where
  "pkgConstructor = \<lparr> name = ''constructor'', version = ''1.0.0'', ecosystem = npm \<rparr>"

definition pkgLodash :: PackageInfo where
  "pkgLodash = \<lparr> name = ''lodash'', version = ''4.17.20'', ecosystem = npm \<rparr>"

definition pkgLodashFixed :: PackageInfo where
  "pkgLodashFixed = \<lparr> name = ''lodash'', version = ''4.17.21'', ecosystem = python \<rparr>"

definition pkgLeftPad :: PackageInfo where
  "pkgLeftPad = \<lparr> name = ''left-pad'', version = ''latest'', ecosystem = npm \<rparr>"

definition offlineWorld :: "nat \<Rightarrow> env" where
  "offlineWorld i = offline"

text \<open>Two source lists that share the advisory id GHSA-xxxx with different descriptions.\<close>

definition sourceA :: "Vulnerability list" where
  "sourceA = [vulnOf ''GHSA-xxxx'' ''high'' ''from A'']"

definition sourceB :: "Vulnerability list" where
  "sourceB = [vulnOf ''GHSA-xxxx'' ''low'' ''from B'', vulnOf ''CVE-1'' ''low'' ''only B'']"

definition oneCriticalTwoHigh :: "Vulnerability list" where
  "oneCriticalTwoHigh =
     [vulnOf ''V-1'' ''critical'' ''c'', vulnOf ''V-2'' ''high'' ''h'', vulnOf ''V-3'' ''high'' ''h'']"

section \<open>Trust score: the rounding of the breakdown\<close>

lemma securityScore_multiple_of_five: "\<exists>k::nat. k \<le> 8 \<and> securityScore v = 5 * real k"
proof -
  define n where "n = 3 * length (filter (\<lambda>x. severity x = ''critical'') v)
    + 2 * length (filter (\<lambda>x. severity x = ''high'') v)
    + length (filter (\<lambda>x. severity x = ''medium'') v)"
  have e: "securityScore v = max 0 (40 - 5 * real n)"
    by (simp add: securityScore_def severityCount_def n_def)
  show ?thesis
  proof (cases "n \<ge> 8")
    case True
    then have "securityScore v = 5 * real (0::nat)" using e by simp
    then show ?thesis by blast
  next
    case False
    then have "securityScore v = 5 * real (8 - n)" using e by simp
    then show ?thesis by (metis diff_le_self)
  qed
qed

lemma security_percentage_steps:
  "k \<le> (8::nat) \<Longrightarrow>
   Math_round ((5 * real k / 40) * 100) * (4 / 10) - 5 * real k \<in> {0, 2 / 10}"
proof -
  assume "k \<le> 8"
  then consider "k = 0" | "k = 1" | "k = 2" | "k = 3" | "k = 4" | "k = 5" | "k = 6" | "k = 7"
    | "k = 8" by linarith
  then show ?thesis by cases (simp_all add: Math_round_def)
qed

lemma security_weight_error:
  "0 \<le> Math_round ((securityScore v / 40) * 100) * (4 / 10) - securityScore v
   \<and> Math_round ((securityScore v / 40) * 100) * (4 / 10) - securityScore v \<le> 2 / 10"
proof -
  obtain k :: nat where k: "k \<le> 8" "securityScore v = 5 * real k"
    using securityScore_multiple_of_five by blast
  from security_percentage_steps[OF k(1)] show ?thesis unfolding k(2) by auto
qed

lemma publishPenalty_values: "publishPenalty g n lp \<in> {0, 5, 10, 15}"
  by (simp add: publishPenalty_def split: option.splits)

lemma commitBonus_values: "commitBonus g n lc \<in> {0, 5}"
  by (simp add: commitBonus_def split: option.splits)

lemma maintenanceScore_values: "maintenanceScore g n md gs \<in> {10, 15, 20, 25}"
proof -
  have "publishPenalty g n (lastPublish md) \<in> {0, 5, 10, 15}"
    by (rule publishPenalty_values)
  moreover have "commitBonus g n (lastCommitOf gs) \<in> {0, 5}"
    by (rule commitBonus_values)
  ultimately show ?thesis unfolding maintenanceScore_def by auto
qed

lemma maintenance_weight_exact:
  "Math_round ((maintenanceScore g n md gs / 25) * 100) * (25 / 100) = maintenanceScore g n md gs"
  using maintenanceScore_values[of g n md gs] by (auto simp: Math_round_def)

lemma starsPoints_nat: "\<exists>k::nat. starsPoints gs = real k"
proof -
  have "starsPoints gs \<in> {0, 2, 4, 6, 8}"
    by (simp add: starsPoints_def split: option.splits)
  then consider "starsPoints gs = real 0" | "starsPoints gs = real 2" | "starsPoints gs = real 4"
    | "starsPoints gs = real 6" | "starsPoints gs = real 8" by auto
  then show ?thesis by cases blast+
qed

lemma downloadPoints_nat: "\<exists>k::nat. downloadPoints ds = real k"
proof -
  have "downloadPoints ds \<in> {0, 1, 3, 5, 7}"
    by (simp add: downloadPoints_def split: option.splits)
  then consider "downloadPoints ds = real 0" | "downloadPoints ds = real 1"
    | "downloadPoints ds = real 3" | "downloadPoints ds = real 5" | "downloadPoints ds = real 7"
    by auto
  then show ?thesis by cases blast+
qed

lemma popularityScore_nat: "\<exists>k::nat. popularityScore gs ds = real k"
proof -
  obtain a b :: nat where "starsPoints gs = real a" "downloadPoints ds = real b"
    using starsPoints_nat downloadPoints_nat by blast
  then have "popularityScore gs ds = real (min 20 (5 + a + b))"
    by (simp add: popularityScore_def)
  then show ?thesis by blast
qed

lemma Math_round_nat: "Math_round (real k) = real k"
  by (simp add: Math_round_def)

lemma popularity_weight_exact:
  "Math_round ((popularityScore gs ds / 20) * 100) * (20 / 100) = popularityScore gs ds"
proof -
  obtain k :: nat where k: "popularityScore gs ds = real k" using popularityScore_nat by blast
  have "(real k / 20) * 100 = real (5 * k)" by simp
  then have "Math_round ((real k / 20) * 100) = real (5 * k)" using Math_round_nat by metis
  then show ?thesis unfolding k by simp
qed

lemma dependenciesScore_values: "dependenciesScore d \<in> {5, 10, 12, 15}"
  by (simp add: dependenciesScore_def)

lemma dependencies_weight_error:
  "- (5 / 100) \<le> Math_round ((dependenciesScore d / 15) * 100) * (15 / 100) - dependenciesScore d
   \<and> Math_round ((dependenciesScore d / 15) * 100) * (15 / 100) - dependenciesScore d \<le> 5 / 100"
  using dependenciesScore_values[of d] by (auto simp: Math_round_def)

lemma Math_round_near_int: "\<bar>e\<bar> < 1 / 2 \<Longrightarrow> Math_round (real_of_int t + e) = real_of_int t"
  unfolding Math_round_def by (simp, linarith)

lemma raw_sum_is_integer:
  "\<exists>t::int. securityScore v + maintenanceScore g n md gs + popularityScore gs ds
             + dependenciesScore d = real_of_int t"
proof -
  obtain k :: nat where k: "securityScore v = 5 * real k"
    using securityScore_multiple_of_five by blast
  obtain p :: nat where p: "popularityScore gs ds = real p" using popularityScore_nat by blast
  have "\<exists>m::int. maintenanceScore g n md gs = real_of_int m"
    using maintenanceScore_values[of g n md gs] by (metis insert_iff empty_iff of_int_numeral)
  then obtain m :: int where m: "maintenanceScore g n md gs = real_of_int m" by blast
  have "\<exists>m::int. dependenciesScore d = real_of_int m"
    using dependenciesScore_values[of d] by (metis insert_iff empty_iff of_int_numeral)
  then obtain q :: int where q: "dependenciesScore d = real_of_int q" by blast
  have "securityScore v + maintenanceScore g n md gs + popularityScore gs ds + dependenciesScore d
      = real_of_int (5 * int k + m + int p + q)" unfolding k p m q by simp
  then show ?thesis by blast
qed

text \<open>
  C2. For every input of \<open>calculateTrustScore\<close>, the four breakdown fields are the raw
  sub-scores as rounded percentages of 40, 25, 20 and 15, and rounding their sum weighted by
  0.4, 0.25, 0.20 and 0.15 gives the raw composite, the rounded sum of the four raw
  sub-scores, whose clamp to the interval from 0 to 100 is the returned score.
\<close>

theorem breakdown_reconstructs_composite:
  "security (breakdown (calculateTrustScore g n v md d gs ds))
     = Math_round ((securityScore v / 40) * 100)
   \<and> maintenance (breakdown (calculateTrustScore g n v md d gs ds))
     = Math_round ((maintenanceScore g n md gs / 25) * 100)
   \<and> popularity (breakdown (calculateTrustScore g n v md d gs ds))
     = Math_round ((popularityScore gs ds / 20) * 100)
   \<and> dependencies_pct (breakdown (calculateTrustScore g n v md d gs ds))
     = Math_round ((dependenciesScore d / 15) * 100)
   \<and> Math_round (security (breakdown (calculateTrustScore g n v md d gs ds)) * (4 / 10)
               + maintenance (breakdown (calculateTrustScore g n v md d gs ds)) * (25 / 100)
               + popularity (breakdown (calculateTrustScore g n v md d gs ds)) * (20 / 100)
               + dependencies_pct (breakdown (calculateTrustScore g n v md d gs ds)) * (15 / 100))
     = Math_round (securityScore v + maintenanceScore g n md gs + popularityScore gs ds
                   + dependenciesScore d)
   \<and> score (calculateTrustScore g n v md d gs ds)
     = min 100 (max 0 (Math_round (securityScore v + maintenanceScore g n md gs
                                    + popularityScore gs ds + dependenciesScore d)))"
proof -
  let ?S = "securityScore v" and ?M = "maintenanceScore g n md gs"
  and ?P = "popularityScore gs ds" and ?D = "dependenciesScore d"
  obtain t :: int where t: "?S + ?M + ?P + ?D = real_of_int t"
    using raw_sum_is_integer by blast
  define e where "e = (Math_round ((?S / 40) * 100) * (4 / 10) - ?S)
                    + (Math_round ((?D / 15) * 100) * (15 / 100) - ?D)"
  have eb: "\<bar>e\<bar> < 1 / 2"
    using security_weight_error[of v] dependencies_weight_error[of d] unfolding e_def by linarith
  have "Math_round ((?S / 40) * 100) * (4 / 10) + Math_round ((?M / 25) * 100) * (25 / 100)
         + Math_round ((?P / 20) * 100) * (20 / 100) + Math_round ((?D / 15) * 100) * (15 / 100)
       = real_of_int t + e"
    unfolding e_def maintenance_weight_exact popularity_weight_exact using t by linarith
  then have "Math_round (Math_round ((?S / 40) * 100) * (4 / 10)
         + Math_round ((?M / 25) * 100) * (25 / 100)
         + Math_round ((?P / 20) * 100) * (20 / 100) + Math_round ((?D / 15) * 100) * (15 / 100))
       = real_of_int t" using Math_round_near_int[OF eb] by simp
  moreover have "Math_round (?S + ?M + ?P + ?D) = real_of_int t"
    unfolding t using Math_round_near_int[of 0 t] by simp
  ultimately show ?thesis by (simp add: calculateTrustScore_def totalScore_def)
qed

lemma maintenance_at_800_days:
  "maintenanceScore epochOnly (800 * msPerDay) publishedAtEpoch None = 10"
  by (simp add: maintenanceScore_def publishPenalty_def commitBonus_def daysSince_def
      msPerDay_def publishedAtEpoch_def epochOnly_def isoEpoch_def lastCommitOf_def)

lemma maintenance_at_0_days: "maintenanceScore epochOnly 0 publishedAtEpoch None = 25"
  by (simp add: maintenanceScore_def publishPenalty_def commitBonus_def daysSince_def
      msPerDay_def publishedAtEpoch_def epochOnly_def isoEpoch_def lastCommitOf_def)

lemma no_signals_scores:
  "securityScore [] = 40 \<and> popularityScore None None = 5 \<and> dependenciesScore [] = 15"
  by (simp add: securityScore_def severityCount_def popularityScore_def starsPoints_def
      downloadPoints_def dependenciesScore_def depCount_def)

theorem breakdown_reconstructs_composite_witness:
  "breakdown (calculateTrustScore epochOnly (800 * msPerDay) [] publishedAtEpoch [] None None)
     = \<lparr> security = 100, maintenance = 40, popularity = 25, dependencies_pct = 100 \<rparr>
   \<and> Math_round (100 * (4 / 10) + 40 * (25 / 100) + 25 * (20 / 100) + 100 * (15 / 100)) = 70
   \<and> score (calculateTrustScore epochOnly (800 * msPerDay) [] publishedAtEpoch [] None None) = 70"
  using breakdown_reconstructs_composite
          [of epochOnly "800 * msPerDay" "[]" publishedAtEpoch "[]" None None]
  by (simp add: maintenance_at_800_days no_signals_scores calculateTrustScore_def totalScore_def
        Math_round_def)

text \<open>
  C8. With exactly one critical and two high vulnerabilities (and no medium one) and a
  dependency map of 60 entries, the raw security sub-score is 40 - 15 - 20 = 5 and its
  breakdown field is 13; the raw dependencies sub-score is 10 and its breakdown field is 67.
\<close>

theorem scenario_one_critical_two_high:
  assumes "length (filter (\<lambda>x. severity x = ''critical'') v) = 1"
    and "length (filter (\<lambda>x. severity x = ''high'') v) = 2"
    and "length (filter (\<lambda>x. severity x = ''medium'') v) = 0"
    and "length d = 60"
  shows "securityScore v = 5
    \<and> security (breakdown (calculateTrustScore g n v md d gs ds)) = 13
    \<and> dependenciesScore d = 10
    \<and> dependencies_pct (breakdown (calculateTrustScore g n v md d gs ds)) = 67"
proof -
  have s: "securityScore v = 5"
    using assms by (simp add: securityScore_def severityCount_def)
  have dd: "dependenciesScore d = 10"
    using assms by (simp add: dependenciesScore_def depCount_def)
  show ?thesis by (simp add: s dd calculateTrustScore_def Math_round_def)
qed

theorem scenario_one_critical_two_high_witness:
  "length (filter (\<lambda>x. severity x = ''critical'') oneCriticalTwoHigh) = 1
   \<and> length (filter (\<lambda>x. severity x = ''high'') oneCriticalTwoHigh) = 2
   \<and> length (filter (\<lambda>x. severity x = ''medium'') oneCriticalTwoHigh) = 0
   \<and> length sixtyDependencies = 60
   \<and> securityScore oneCriticalTwoHigh = 5
   \<and> security (breakdown (calculateTrustScore epochOnly 0 oneCriticalTwoHigh emptyMetadata
                              sixtyDependencies None None)) = 13
   \<and> dependenciesScore sixtyDependencies = 10
   \<and> dependencies_pct (breakdown (calculateTrustScore epochOnly 0 oneCriticalTwoHigh
                              emptyMetadata sixtyDependencies None None)) = 67"
proof -
  have a: "length (filter (\<lambda>x. severity x = ''critical'') oneCriticalTwoHigh) = 1"
    by (simp add: oneCriticalTwoHigh_def vulnOf_def)
  have b: "length (filter (\<lambda>x. severity x = ''high'') oneCriticalTwoHigh) = 2"
    by (simp add: oneCriticalTwoHigh_def vulnOf_def)
  have c: "length (filter (\<lambda>x. severity x = ''medium'') oneCriticalTwoHigh) = 0"
    by (simp add: oneCriticalTwoHigh_def vulnOf_def)
  have d: "length sixtyDependencies = 60"
    by (simp add: sixtyDependencies_def)
  from a b c d
    scenario_one_critical_two_high [OF a b c d, of epochOnly 0 emptyMetadata None None]
  show ?thesis by simp
qed

section \<open>Trust score: the clock and the maintenance thresholds\<close>

lemma daysSince_ms:
  "daysSince n t > 730 \<longleftrightarrow> n - t > 730 * msPerDay"
  "daysSince n t > 365 \<longleftrightarrow> n - t > 365 * msPerDay"
  "daysSince n t > 180 \<longleftrightarrow> n - t > 180 * msPerDay"
  "daysSince n t < 30 \<longleftrightarrow> n - t < 30 * msPerDay"
  unfolding daysSince_def msPerDay_def by (simp_all add: field_simps) linarith+

lemma publishPenalty_ms:
  "publishPenalty g n lp =
     (case parsedDate g lp of
        None \<Rightarrow> 0
      | Some t \<Rightarrow>
          (if 730 * msPerDay < n - t then 15
           else if 365 * msPerDay < n - t then 10
           else if 180 * msPerDay < n - t then 5
           else 0))"
  by (simp add: publishPenalty_def parsedDate_def daysSince_ms split: option.splits)

lemma commitBonus_ms:
  "commitBonus g n lc =
     (case parsedDate g lc of
        None \<Rightarrow> 0
      | Some t \<Rightarrow> (if n - t < 30 * msPerDay then 5 else 0))"
  by (simp add: commitBonus_def parsedDate_def daysSince_ms split: option.splits)

text \<open>
  C3, as stated, fails: the same five arguments give two different results at two
  readings of the clock.
\<close>

theorem trust_score_clock_counterexample:
  "calculateTrustScore epochOnly 0 [] publishedAtEpoch [] None None
   \<noteq> calculateTrustScore epochOnly (800 * msPerDay) [] publishedAtEpoch [] None None"
  by (simp add: calculateTrustScore_def maintenance_at_0_days maintenance_at_800_days
        Math_round_def)

lemma maintenance_without_publish_date:
  "parsedDate g (lastPublish md) = None \<Longrightarrow> maintenanceScore g n md gs = 25"
proof -
  assume "parsedDate g (lastPublish md) = None"
  then have "publishPenalty g n (lastPublish md) = 0" by (simp add: publishPenalty_ms)
  moreover have "commitBonus g n (lastCommitOf gs) \<in> {0, 5}" by (rule commitBonus_values)
  ultimately show ?thesis unfolding maintenanceScore_def by auto
qed

text \<open>
  C3, amended. \<open>calculateTrustScore\<close> is not a function of its five arguments alone:
  it also reads the clock. The clock acts on the result only through the raw maintenance
  sub-score: the security, popularity and dependencies fields of the breakdown are the
  same at every reading of the clock; two readings that give the same raw maintenance
  sub-score give the same result; and when the last publish is not a present, parseable
  date the whole result is the same at every reading of the clock.
\<close>

theorem trust_score_clock_confined:
  "security (breakdown (calculateTrustScore g n v md d gs ds))
     = security (breakdown (calculateTrustScore g n' v md d gs ds))
   \<and> popularity (breakdown (calculateTrustScore g n v md d gs ds))
     = popularity (breakdown (calculateTrustScore g n' v md d gs ds))
   \<and> dependencies_pct (breakdown (calculateTrustScore g n v md d gs ds))
     = dependencies_pct (breakdown (calculateTrustScore g n' v md d gs ds))
   \<and> (maintenanceScore g n md gs = maintenanceScore g n' md gs
        \<longrightarrow> calculateTrustScore g n v md d gs ds = calculateTrustScore g n' v md d gs ds)
   \<and> (parsedDate g (lastPublish md) = None
        \<longrightarrow> calculateTrustScore g n v md d gs ds = calculateTrustScore g n' v md d gs ds)"
proof -
  have same: "calculateTrustScore g n v md d gs ds = calculateTrustScore g n' v md d gs ds"
    if "maintenanceScore g n md gs = maintenanceScore g n' md gs"
    using that by (simp add: calculateTrustScore_def totalScore_def)
  have "maintenanceScore g n md gs = maintenanceScore g n' md gs"
    if "parsedDate g (lastPublish md) = None"
    using that by (simp add: maintenance_without_publish_date)
  then have nodate: "parsedDate g (lastPublish md) = None
        \<longrightarrow> calculateTrustScore g n v md d gs ds = calculateTrustScore g n' v md d gs ds"
    using same by blast
  have fields: "security (breakdown (calculateTrustScore g n v md d gs ds))
     = security (breakdown (calculateTrustScore g n' v md d gs ds))
   \<and> popularity (breakdown (calculateTrustScore g n v md d gs ds))
     = popularity (breakdown (calculateTrustScore g n' v md d gs ds))
   \<and> dependencies_pct (breakdown (calculateTrustScore g n v md d gs ds))
     = dependencies_pct (breakdown (calculateTrustScore g n' v md d gs ds))"
    by (simp add: calculateTrustScore_def)
  from fields same nodate show ?thesis by blast
qed

lemma commit_at_epoch:
  "parsedDate epochOnly (lastCommitOf (Some committedAtEpoch)) = Some 0
   \<and> commitBonus epochOnly 0 (lastCommitOf (Some committedAtEpoch)) = 5
   \<and> commitBonus epochOnly (800 * msPerDay) (lastCommitOf (Some committedAtEpoch)) = 0"
  by (simp add: commitBonus_ms)
     (simp add: parsedDate_def lastCommitOf_def committedAtEpoch_def epochOnly_def
        isoEpoch_def msPerDay_def)

theorem trust_score_clock_confined_witness:
  "parsedDate epochOnly (lastPublish emptyMetadata) = None
   \<and> parsedDate epochOnly (lastCommitOf (Some committedAtEpoch)) = Some 0
   \<and> commitBonus epochOnly 0 (lastCommitOf (Some committedAtEpoch)) = 5
   \<and> commitBonus epochOnly (800 * msPerDay) (lastCommitOf (Some committedAtEpoch)) = 0
   \<and> maintenanceScore epochOnly 0 emptyMetadata (Some committedAtEpoch)
     = maintenanceScore epochOnly (800 * msPerDay) emptyMetadata (Some committedAtEpoch)
   \<and> calculateTrustScore epochOnly 0 [] emptyMetadata [] (Some committedAtEpoch) None
     = calculateTrustScore epochOnly (800 * msPerDay) [] emptyMetadata []
         (Some committedAtEpoch) None"
proof -
  have p: "parsedDate epochOnly (lastPublish emptyMetadata) = None"
    by (simp add: parsedDate_def emptyMetadata_def)
  have m: "maintenanceScore epochOnly 0 emptyMetadata (Some committedAtEpoch)
     = maintenanceScore epochOnly (800 * msPerDay) emptyMetadata (Some committedAtEpoch)"
    using p by (simp add: maintenance_without_publish_date)
  from p m commit_at_epoch
    trust_score_clock_confined [of epochOnly 0 "[]" emptyMetadata "[]"
        "Some committedAtEpoch" None "800 * msPerDay"]
  show ?thesis by simp
qed

text \<open>
  C4, as stated, fails at the boundary: a last publish exactly 730 days before now is at
  least 730 days old, yet the raw maintenance sub-score is 15 (25 - 10), not 25 - 15.
\<close>

theorem maintenance_boundary_counterexample:
  "730 \<le> daysSince (730 * msPerDay) 0
   \<and> parsedDate epochOnly (lastPublish publishedAtEpoch) = Some 0
   \<and> maintenanceScore epochOnly (730 * msPerDay) publishedAtEpoch None = 15
   \<and> maintenanceScore epochOnly (730 * msPerDay) publishedAtEpoch None \<noteq> 25 - 15"
  by (simp add: maintenanceScore_def publishPenalty_def commitBonus_def daysSince_def
      msPerDay_def publishedAtEpoch_def epochOnly_def isoEpoch_def parsedDate_def
      lastCommitOf_def)

text \<open>
  C4, amended. The raw maintenance sub-score starts at 25 and subtracts 15 when the last
  publish is more than 730 days before now, else 10 when more than 365 days, else 5 when
  more than 180 days (one amount only); it adds 5 when the last commit is less than 30 days
  before now; the result is clamped to the interval from 0 to 25; an absent, empty or
  unparseable date gives no adjustment for its signal.
\<close>

theorem maintenance_strict_thresholds:
  "maintenanceScore g n md gs =
     min 25 (max 0 (25
       - (case parsedDate g (lastPublish md) of
            None \<Rightarrow> 0
          | Some t \<Rightarrow>
              (if 730 * msPerDay < n - t then 15
               else if 365 * msPerDay < n - t then 10
               else if 180 * msPerDay < n - t then 5
               else 0))
       + (case parsedDate g (lastCommitOf gs) of
            None \<Rightarrow> 0
          | Some t \<Rightarrow> (if n - t < 30 * msPerDay then 5 else 0))))"
  unfolding maintenanceScore_def publishPenalty_ms commitBonus_ms by simp

theorem maintenance_strict_thresholds_witness:
  "parsedDate epochOnly (lastPublish publishedAtEpoch) = Some 0
   \<and> maintenanceScore epochOnly (730 * msPerDay + 1) publishedAtEpoch None = 10
   \<and> maintenanceScore epochOnly (730 * msPerDay) publishedAtEpoch None = 15
   \<and> maintenanceScore epochOnly (365 * msPerDay) publishedAtEpoch None = 20
   \<and> maintenanceScore epochOnly (180 * msPerDay) publishedAtEpoch None = 25
   \<and> maintenanceScore epochOnly (730 * msPerDay) emptyMetadata None = 25"
  using maintenance_strict_thresholds [of epochOnly "730 * msPerDay + 1" publishedAtEpoch None]
    maintenance_strict_thresholds [of epochOnly "730 * msPerDay" publishedAtEpoch None]
    maintenance_strict_thresholds [of epochOnly "365 * msPerDay" publishedAtEpoch None]
    maintenance_strict_thresholds [of epochOnly "180 * msPerDay" publishedAtEpoch None]
    maintenance_strict_thresholds [of epochOnly "730 * msPerDay" emptyMetadata None]
  by (simp add: parsedDate_def publishedAtEpoch_def emptyMetadata_def epochOnly_def isoEpoch_def
        lastCommitOf_def msPerDay_def)

section \<open>The two adapters: severity\<close>

text \<open>
  C5. For a record of source B without a severity tag the ladder of the score is meant to
  give the severity, a score below 4 being low. The presence test of the score is its
  truthiness, so a record whose score is 0 keeps the initial medium, while the same score
  is passed on as the cvss value of the vulnerability.
\<close>

theorem osv_score_zero_is_medium:
  "database_specific_severity osvScoreZero = None
   \<and> severity0_score osvScoreZero = Some (JNumber 0)
   \<and> severity (osvToVulnerability conv osvScoreZero) = ''medium''
   \<and> severity (osvToVulnerability conv osvScoreZero) \<noteq> ''low''
   \<and> cvss (osvToVulnerability conv osvScoreZero) = Some (JNumber 0)"
  by (simp add: osvToVulnerability_def osvSeverity_def osvScoreZero_def truthy_def
        truthyValue_def)

text \<open>What the adapter of source B does on the other records: the tag wins, then the ladder.\<close>

lemma osvSeverity_tag: "tag \<noteq> [] \<Longrightarrow> osvSeverity conv (Some tag) sc = toLowerCase tag"
  by (simp add: osvSeverity_def truthy_def)

lemma osvSeverity_ladder:
  "\<not> truthy tag \<Longrightarrow> x \<noteq> 0 \<Longrightarrow>
   osvSeverity conv tag (Some (JNumber x)) =
     (if 9 \<le> x then ''critical'' else if 7 \<le> x then ''high''
      else if 4 \<le> x then ''medium'' else ''low'')"
  by (simp add: osvSeverity_def truthyValue_def ToNumber_def greaterEqual_def)

lemma osvSeverity_numeric_string:
  "osvSeverity numericString None (Some (JString ''9.8'')) = ''critical''"
  by (simp add: osvSeverity_def truthy_def truthyValue_def ToNumber_def greaterEqual_def
        numericString_def)

lemma toLowerCase_empty: "toLowerCase s = [] \<longleftrightarrow> s = []"
  by (simp add: toLowerCase_def)

lemma githubSeverity_nonempty: "githubSeverity s \<noteq> []"
  by (simp add: githubSeverity_def split: option.splits)

lemma osvSeverity_nonempty: "osvSeverity conv tag sc \<noteq> []"
  by (cases tag) (simp_all add: osvSeverity_def truthy_def toLowerCase_empty split: option.splits)

lemma github_severity_present: "v \<in> set (fetchGitHubAdvisories e pkg) \<Longrightarrow> severity v \<noteq> []"
  by (auto simp: fetchGitHubAdvisories_def githubToVulnerability_def githubSeverity_nonempty
      split: if_splits option.splits)

lemma osv_severity_present: "v \<in> set (fetchOSVVulnerabilities e pkg) \<Longrightarrow> severity v \<noteq> []"
  by (auto simp: fetchOSVVulnerabilities_def osvToVulnerability_def osvSeverity_nonempty
      split: option.splits dest!: in_set_takeD)

section \<open>The merge\<close>

lemma pushUnseen_seen: "fst (pushUnseen xs (S, out)) = S \<union> id_vuln ` set xs"
  by (induction xs arbitrary: S out) auto

lemma pushUnseen_subset: "set (snd (pushUnseen xs (S, out))) \<subseteq> set out \<union> set xs"
proof (induction xs arbitrary: S out)
  case Nil
  then show ?case by simp
next
  case (Cons x xs)
  show ?case
  proof (cases "id_vuln x \<in> S")
    case True
    then show ?thesis using Cons.IH[of S out] by auto
  next
    case False
    then show ?thesis using Cons.IH[of "insert (id_vuln x) S" "out @ [x]"] by auto
  qed
qed

lemma mergeSources_subset: "set (mergeSources A B) \<subseteq> set A \<union> set B"
proof -
  obtain S out where st: "pushUnseen A ({}, []) = (S, out)"
    by (cases "pushUnseen A ({}, [])")
  have "set out \<subseteq> set A" using pushUnseen_subset[of A "{}" "[]"] st by simp
  moreover have "set (snd (pushUnseen B (S, out))) \<subseteq> set out \<union> set B"
    by (rule pushUnseen_subset)
  ultimately show ?thesis unfolding mergeSources_def st by blast
qed

text \<open>
  The loop appends, to the list built so far, the first record of each id that is not in
  the set of the ids seen.
\<close>

lemma pushUnseen_appends:
  "\<exists>ys. snd (pushUnseen xs (S, out)) = out @ ys
        \<and> distinct (map id_vuln ys)
        \<and> id_vuln ` set ys = id_vuln ` set xs - S
        \<and> (\<forall>y\<in>set ys. find (\<lambda>w. id_vuln w = id_vuln y) xs = Some y)"
proof (induction xs arbitrary: S out)
  case Nil
  have "snd (pushUnseen [] (S, out)) = out @ []" by simp
  then show ?case by fastforce
next
  case (Cons x xs)
  show ?case
  proof (cases "id_vuln x \<in> S")
    case True
    from Cons.IH[of S out] obtain ys where y1: "snd (pushUnseen xs (S, out)) = out @ ys"
      and y2: "distinct (map id_vuln ys)" and y3: "id_vuln ` set ys = id_vuln ` set xs - S"
      and y4: "\<forall>y\<in>set ys. find (\<lambda>w. id_vuln w = id_vuln y) xs = Some y" by blast
    have a: "snd (pushUnseen (x # xs) (S, out)) = out @ ys" using True y1 by simp
    have c: "id_vuln ` set ys = id_vuln ` set (x # xs) - S" using y3 True by auto
    have d: "\<forall>y\<in>set ys. find (\<lambda>w. id_vuln w = id_vuln y) (x # xs) = Some y"
    proof
      fix y assume y: "y \<in> set ys"
      then have "id_vuln y \<in> id_vuln ` set xs - S" using y3 by blast
      then have "id_vuln x \<noteq> id_vuln y" using True by auto
      then have "find (\<lambda>w. id_vuln w = id_vuln y) (x # xs)
                 = find (\<lambda>w. id_vuln w = id_vuln y) xs"
        by simp
      then show "find (\<lambda>w. id_vuln w = id_vuln y) (x # xs) = Some y" using y4 y by simp
    qed
    from a y2 c d show ?thesis by blast
  next
    case False
    from Cons.IH[of "insert (id_vuln x) S" "out @ [x]"] obtain ys where
      y1: "snd (pushUnseen xs (insert (id_vuln x) S, out @ [x])) = (out @ [x]) @ ys"
      and y2: "distinct (map id_vuln ys)"
      and y3: "id_vuln ` set ys = id_vuln ` set xs - insert (id_vuln x) S"
      and y4: "\<forall>y\<in>set ys. find (\<lambda>w. id_vuln w = id_vuln y) xs = Some y" by blast
    have ne: "id_vuln x \<notin> id_vuln ` set ys" using y3 by blast
    have a: "snd (pushUnseen (x # xs) (S, out)) = out @ (x # ys)" using False y1 by simp
    have b: "distinct (map id_vuln (x # ys))" using y2 ne by simp
    have c: "id_vuln ` set (x # ys) = id_vuln ` set (x # xs) - S" using y3 False by auto
    have d: "\<forall>y\<in>set (x # ys). find (\<lambda>w. id_vuln w = id_vuln y) (x # xs) = Some y"
    proof
      fix y assume y: "y \<in> set (x # ys)"
      show "find (\<lambda>w. id_vuln w = id_vuln y) (x # xs) = Some y"
      proof (cases "y = x")
        case True
        then show ?thesis by simp
      next
        case False
        then have yy: "y \<in> set ys" using y by simp
        then have "id_vuln x \<noteq> id_vuln y" using ne by (metis imageI)
        then have "find (\<lambda>w. id_vuln w = id_vuln y) (x # xs)
                   = find (\<lambda>w. id_vuln w = id_vuln y) xs"
          by simp
        then show ?thesis using y4 yy by simp
      qed
    qed
    from a b c d show ?thesis by blast
  qed
qed

lemma find_append_left: "find P xs = Some y \<Longrightarrow> find P (xs @ zs) = Some y"
  by (induction xs) auto

lemma find_append_right: "\<forall>x\<in>set xs. \<not> P x \<Longrightarrow> find P (xs @ zs) = find P zs"
  by (induction xs) auto

lemma find_distinct_id:
  "y \<in> set zs \<Longrightarrow> id_vuln y = i \<Longrightarrow> distinct (map id_vuln zs)
     \<Longrightarrow> find (\<lambda>w. id_vuln w = i) zs = Some y"
proof (induction zs)
  case Nil
  then show ?case by simp
next
  case (Cons z zs)
  show ?case
  proof (cases "y = z")
    case True
    then show ?thesis using Cons.prems by simp
  next
    case False
    then have yz: "y \<in> set zs" using Cons.prems by simp
    have "id_vuln z \<notin> id_vuln ` set zs" using Cons.prems(3) by simp
    then have "id_vuln z \<noteq> i" using yz Cons.prems(2) by (metis imageI)
    moreover have "find (\<lambda>w. id_vuln w = i) zs = Some y" using Cons.IH yz Cons.prems by simp
    ultimately show ?thesis by simp
  qed
qed

lemma mergeSources_split:
  "\<exists>as bs. mergeSources A B = as @ bs
     \<and> distinct (map id_vuln as) \<and> distinct (map id_vuln bs)
     \<and> id_vuln ` set as = id_vuln ` set A
     \<and> id_vuln ` set bs = id_vuln ` set B - id_vuln ` set A
     \<and> (\<forall>y\<in>set as. find (\<lambda>w. id_vuln w = id_vuln y) A = Some y)
     \<and> (\<forall>y\<in>set bs. find (\<lambda>w. id_vuln w = id_vuln y) B = Some y)"
proof -
  obtain as where a1: "snd (pushUnseen A ({}, [])) = [] @ as" and a2: "distinct (map id_vuln as)"
    and a3: "id_vuln ` set as = id_vuln ` set A - {}"
    and a4: "\<forall>y\<in>set as. find (\<lambda>w. id_vuln w = id_vuln y) A = Some y"
    using pushUnseen_appends[of A "{}" "[]"] by blast
  have "fst (pushUnseen A ({}, [])) = id_vuln ` set A"
    using pushUnseen_seen[of A "{}" "[]"] by simp
  then have st: "pushUnseen A ({}, []) = (id_vuln ` set A, as)"
    using a1 by (simp add: prod_eq_iff)
  obtain bs where b1: "snd (pushUnseen B (id_vuln ` set A, as)) = as @ bs"
    and b2: "distinct (map id_vuln bs)"
    and b3: "id_vuln ` set bs = id_vuln ` set B - id_vuln ` set A"
    and b4: "\<forall>y\<in>set bs. find (\<lambda>w. id_vuln w = id_vuln y) B = Some y"
    using pushUnseen_appends[of B "id_vuln ` set A" as] by blast
  have m: "mergeSources A B = as @ bs" by (simp add: mergeSources_def st b1)
  have a3': "id_vuln ` set as = id_vuln ` set A" using a3 by simp
  from m a2 b2 a3' b3 a4 b4 show ?thesis by blast
qed

lemma mergeSources_ids:
  "id_vuln ` set (mergeSources A B) = id_vuln ` set A \<union> id_vuln ` set B"
proof -
  from mergeSources_split[of A B]
  obtain as bs where m: "mergeSources A B = as @ bs"
     and "distinct (map id_vuln as)" and "distinct (map id_vuln bs)"
     and a: "id_vuln ` set as = id_vuln ` set A"
     and b: "id_vuln ` set bs = id_vuln ` set B - id_vuln ` set A"
     and "\<forall>y\<in>set as. find (\<lambda>w. id_vuln w = id_vuln y) A = Some y"
     and "\<forall>y\<in>set bs. find (\<lambda>w. id_vuln w = id_vuln y) B = Some y"
    by (elim exE conjE) (rule that)
  have "id_vuln ` set (mergeSources A B) = id_vuln ` set as \<union> id_vuln ` set bs"
    unfolding m by (simp add: image_Un)
  also have "\<dots> = id_vuln ` set A \<union> (id_vuln ` set B - id_vuln ` set A)"
    by (simp only: a b)
  also have "\<dots> = id_vuln ` set A \<union> id_vuln ` set B"
    by (rule Un_Diff_cancel)
  finally show ?thesis .
qed

text \<open>
  C6. The merge goes through the records of source A and then those of source B and
  appends a record only when its id has not been seen: each id occurs at most once in the
  merged list; every merged record is the first record with its id in A followed by B, so
  for an id that A has, the merged record is the one of source A; and the set of the ids
  is the union of the ids of the two sources, the same when the sources are exchanged.
\<close>

theorem merge_first_source_wins:
  "distinct (map id_vuln (mergeSources A B))
   \<and> (\<forall>v\<in>set (mergeSources A B). find (\<lambda>w. id_vuln w = id_vuln v) (A @ B) = Some v)
   \<and> (\<forall>a\<in>set A. find (\<lambda>w. id_vuln w = id_vuln a) (mergeSources A B)
                    = find (\<lambda>w. id_vuln w = id_vuln a) A)
   \<and> id_vuln ` set (mergeSources A B) = id_vuln ` set A \<union> id_vuln ` set B
   \<and> id_vuln ` set (mergeSources A B) = id_vuln ` set (mergeSources B A)"
proof -
  from mergeSources_split[of A B]
  obtain as bs where m: "mergeSources A B = as @ bs"
     and das: "distinct (map id_vuln as)" and dbs: "distinct (map id_vuln bs)"
     and ias: "id_vuln ` set as = id_vuln ` set A"
     and ibs: "id_vuln ` set bs = id_vuln ` set B - id_vuln ` set A"
     and fas: "\<forall>y\<in>set as. find (\<lambda>w. id_vuln w = id_vuln y) A = Some y"
     and fbs: "\<forall>y\<in>set bs. find (\<lambda>w. id_vuln w = id_vuln y) B = Some y"
    by (elim exE conjE) (rule that)
  have disj: "id_vuln ` set as \<inter> id_vuln ` set bs = {}" using ias ibs by blast
  have c1: "distinct (map id_vuln (mergeSources A B))"
    unfolding m using das dbs disj by simp
  have c2: "\<forall>v\<in>set (mergeSources A B). find (\<lambda>w. id_vuln w = id_vuln v) (A @ B) = Some v"
  proof
    fix v assume "v \<in> set (mergeSources A B)"
    then consider "v \<in> set as" | "v \<in> set bs" unfolding m by auto
    then show "find (\<lambda>w. id_vuln w = id_vuln v) (A @ B) = Some v"
    proof cases
      case 1
      then have "find (\<lambda>w. id_vuln w = id_vuln v) A = Some v" using fas by simp
      then show ?thesis by (rule find_append_left)
    next
      case 2
      then have "id_vuln v \<notin> id_vuln ` set A" using ibs by blast
      then have "\<forall>x\<in>set A. \<not> (id_vuln x = id_vuln v)" by (metis imageI)
      then have "find (\<lambda>w. id_vuln w = id_vuln v) (A @ B)
                 = find (\<lambda>w. id_vuln w = id_vuln v) B"
        by (rule find_append_right)
      then show ?thesis using fbs 2 by simp
    qed
  qed
  have c3: "\<forall>a\<in>set A. find (\<lambda>w. id_vuln w = id_vuln a) (mergeSources A B)
                    = find (\<lambda>w. id_vuln w = id_vuln a) A"
  proof
    fix a assume a: "a \<in> set A"
    then have "id_vuln a \<in> id_vuln ` set as" using ias by blast
    then obtain y where y: "y \<in> set as" "id_vuln y = id_vuln a" by auto
    have "find (\<lambda>w. id_vuln w = id_vuln a) as = Some y"
      using y das by (rule find_distinct_id)
    then have "find (\<lambda>w. id_vuln w = id_vuln a) (mergeSources A B) = Some y"
      unfolding m by (rule find_append_left)
    moreover have "find (\<lambda>w. id_vuln w = id_vuln a) A = Some y" using fas y by metis
    ultimately show "find (\<lambda>w. id_vuln w = id_vuln a) (mergeSources A B)
                    = find (\<lambda>w. id_vuln w = id_vuln a) A" by simp
  qed
  have c4: "id_vuln ` set (mergeSources A B) = id_vuln ` set A \<union> id_vuln ` set B"
    by (rule mergeSources_ids)
  have c5: "id_vuln ` set (mergeSources A B) = id_vuln ` set (mergeSources B A)"
    unfolding mergeSources_ids by (rule Un_commute)
  from c1 c2 c3 c4 c5 show ?thesis by (intro conjI)
qed

theorem merge_first_source_wins_witness:
  "mergeSources sourceA sourceB
     = [vulnOf ''GHSA-xxxx'' ''high'' ''from A'', vulnOf ''CVE-1'' ''low'' ''only B'']
   \<and> map id_vuln sourceA = [''GHSA-xxxx'']
   \<and> map id_vuln sourceB = [''GHSA-xxxx'', ''CVE-1'']
   \<and> distinct (map id_vuln (mergeSources sourceA sourceB))
   \<and> map description (mergeSources sourceA sourceB) = [''from A'', ''only B'']
   \<and> id_vuln ` set (mergeSources sourceB sourceA) = {''GHSA-xxxx'', ''CVE-1''}"
  using merge_first_source_wins [of sourceA sourceB]
  by (simp add: mergeSources_def sourceA_def sourceB_def vulnOf_def) 

text \<open>
  What holds of the default: source A gives medium without a tag, source B gives medium
  without a tag when the score property is absent, and every record of the merged list has
  a severity that is present (a string that is not empty).
\<close>

lemma absent_severity_defaults:
  "(\<not> truthy (adv_severity a) \<longrightarrow> severity (githubToVulnerability a) = ''medium'')
   \<and> (\<not> truthy (database_specific_severity b) \<and> severity0_score b = None
        \<longrightarrow> severity (osvToVulnerability conv b) = ''medium'')
   \<and> (\<forall>v\<in>set (mergeSources (fetchGitHubAdvisories e pkg) (fetchOSVVulnerabilities e pkg)).
         severity v \<noteq> [])"
proof -
  have 1: "\<not> truthy (adv_severity a) \<longrightarrow> severity (githubToVulnerability a) = ''medium''"
    by (simp add: githubToVulnerability_def githubSeverity_def truthy_def toLowerCase_empty
          split: option.splits)
  have 2: "\<not> truthy (database_specific_severity b) \<and> severity0_score b = None
        \<longrightarrow> severity (osvToVulnerability conv b) = ''medium''"
    by (simp add: osvToVulnerability_def osvSeverity_def)
  have 3: "\<forall>v\<in>set (mergeSources (fetchGitHubAdvisories e pkg) (fetchOSVVulnerabilities e pkg)).
         severity v \<noteq> []"
  proof
    fix v
    assume "v \<in> set (mergeSources (fetchGitHubAdvisories e pkg) (fetchOSVVulnerabilities e pkg))"
    then have "v \<in> set (fetchGitHubAdvisories e pkg) \<union> set (fetchOSVVulnerabilities e pkg)"
      using mergeSources_subset by blast
    then show "severity v \<noteq> []" using github_severity_present osv_severity_present by blast
  qed
  from 1 2 3 show ?thesis by (intro conjI)
qed

text \<open>
  C10. A record for which the source gives neither a severity tag nor a numeric score is
  to get the severity medium. The adapter of source B tests the score for truthiness
  without a check of its type: for a record without a tag whose score is the CVSS vector,
  a string and no number, the test passes, every comparison of the ladder is false, and
  the severity is low, the vector being passed on as the cvss value.
\<close>

theorem osv_vector_score_is_low:
  "database_specific_severity osvVectorScore = None
   \<and> severity0_score osvVectorScore = Some (JString cvssVector)
   \<and> ToNumber numericString (JString cvssVector) = None
   \<and> severity (osvToVulnerability numericString osvVectorScore) = ''low''
   \<and> severity (osvToVulnerability numericString osvVectorScore) \<noteq> ''medium''
   \<and> cvss (osvToVulnerability numericString osvVectorScore) = Some (JString cvssVector)"
  by (simp add: osvToVulnerability_def osvSeverity_def osvVectorScore_def truthy_def
        truthyValue_def ToNumber_def greaterEqual_def numericString_def cvssVector_def)

section \<open>The fallback table\<close>

lemma fetchVulnerabilities_nonempty:
  "mergeSources (fetchGitHubAdvisories e pkg) (fetchOSVVulnerabilities e pkg) \<noteq> []
   \<Longrightarrow> fetchVulnerabilities e pkg
       = Array (mergeSources (fetchGitHubAdvisories e pkg) (fetchOSVVulnerabilities e pkg))"
  by (simp add: fetchVulnerabilities_def)

lemma fetchVulnerabilities_own:
  "mergeSources (fetchGitHubAdvisories e pkg) (fetchOSVVulnerabilities e pkg) = []
   \<Longrightarrow> map_of FALLBACK_VULNERABILITIES (name pkg) = Some entries
   \<Longrightarrow> fetchVulnerabilities e pkg = Array entries"
  by (simp add: fetchVulnerabilities_def getProperty_def)

lemma fetchVulnerabilities_absent:
  "mergeSources (fetchGitHubAdvisories e pkg) (fetchOSVVulnerabilities e pkg) = []
   \<Longrightarrow> map_of FALLBACK_VULNERABILITIES (name pkg) = None
   \<Longrightarrow> name pkg \<notin> set Object_prototype_properties
   \<Longrightarrow> fetchVulnerabilities e pkg = Array []"
  by (simp add: fetchVulnerabilities_def getProperty_def)

lemma offline_merged:
  "mergeSources (fetchGitHubAdvisories offline pkg) (fetchOSVVulnerabilities offline pkg) = []"
  by (simp add: mergeSources_def fetchGitHubAdvisories_def fetchOSVVulnerabilities_def
        offline_def truthy_def)

lemma offline_constructor:
  "fetchVulnerabilities offline pkgConstructor = PrototypeMember ''constructor''"
  by (simp add: offline_merged fetchVulnerabilities_def getProperty_def
        FALLBACK_VULNERABILITIES_def Object_prototype_properties_def pkgConstructor_def)

lemma offline_leftpad: "fetchVulnerabilities offline pkgLeftPad = Array []"
  by (simp add: offline_merged fetchVulnerabilities_def getProperty_def
        FALLBACK_VULNERABILITIES_def Object_prototype_properties_def pkgLeftPad_def)

text \<open>
  C7. With an empty merged list the table's entries are returned for a name that is a key
  of the table, and the empty list for a name that is not. For the package name
  constructor, which is no key of the table, with both sources empty, the value returned
  is the member of that name inherited from the prototype of the table object, not the
  empty list.
\<close>

theorem fallback_inherited_property:
  "mergeSources (fetchGitHubAdvisories offline pkgConstructor)
                (fetchOSVVulnerabilities offline pkgConstructor) = []
   \<and> map_of FALLBACK_VULNERABILITIES (name pkgConstructor) = None
   \<and> fetchVulnerabilities offline pkgConstructor = PrototypeMember ''constructor''
   \<and> fetchVulnerabilities offline pkgConstructor \<noteq> Array []"
  by (simp add: offline_merged offline_constructor)
    (simp add: FALLBACK_VULNERABILITIES_def pkgConstructor_def)

text \<open>
  C9. The fallback lookup is keyed by the package name alone: two packages of the same
  name, a key of the table, for which both sources give nothing, get the same entries of
  the table, whatever their ecosystems and versions are.
\<close>

theorem fallback_keyed_by_name_only:
  assumes "name p = name p'"
    and "map_of FALLBACK_VULNERABILITIES (name p) = Some entries"
    and "mergeSources (fetchGitHubAdvisories e p) (fetchOSVVulnerabilities e p) = []"
    and "mergeSources (fetchGitHubAdvisories e' p') (fetchOSVVulnerabilities e' p') = []"
  shows "fetchVulnerabilities e p = Array entries
         \<and> fetchVulnerabilities e' p' = fetchVulnerabilities e p"
  using assms by (simp add: fetchVulnerabilities_def getProperty_def)

lemma lodash_is_key:
  "map_of FALLBACK_VULNERABILITIES ''lodash''
     = Some (the (map_of FALLBACK_VULNERABILITIES ''lodash''))"
  by (simp add: FALLBACK_VULNERABILITIES_def)

theorem fallback_keyed_by_name_only_witness:
  "name pkgLodash = name pkgLodashFixed
   \<and> ecosystem pkgLodash \<noteq> ecosystem pkgLodashFixed
   \<and> version pkgLodash \<noteq> version pkgLodashFixed
   \<and> map_of FALLBACK_VULNERABILITIES (name pkgLodash)
       = Some (the (map_of FALLBACK_VULNERABILITIES ''lodash''))
   \<and> map fixedIn (the (map_of FALLBACK_VULNERABILITIES ''lodash''))
       = [Some (version pkgLodashFixed)]
   \<and> fetchVulnerabilities offline pkgLodash
       = Array (the (map_of FALLBACK_VULNERABILITIES ''lodash''))
   \<and> fetchVulnerabilities offline pkgLodashFixed = fetchVulnerabilities offline pkgLodash"
proof -
  have a: "name pkgLodash = name pkgLodashFixed"
    by (simp add: pkgLodash_def pkgLodashFixed_def)
  have b: "map_of FALLBACK_VULNERABILITIES (name pkgLodash)
       = Some (the (map_of FALLBACK_VULNERABILITIES ''lodash''))"
    using lodash_is_key by (simp add: pkgLodash_def)
  have c: "ecosystem pkgLodash \<noteq> ecosystem pkgLodashFixed
      \<and> version pkgLodash \<noteq> version pkgLodashFixed"
    by (simp add: pkgLodash_def pkgLodashFixed_def)
  have d: "map fixedIn (the (map_of FALLBACK_VULNERABILITIES ''lodash''))
       = [Some (version pkgLodashFixed)]"
    by (simp add: FALLBACK_VULNERABILITIES_def pkgLodashFixed_def)
  from a b c d
    fallback_keyed_by_name_only [OF a b offline_merged offline_merged]
  show ?thesis by (intro conjI) simp_all
qed

section \<open>The scan loop\<close>

lemma scanLoop_map:
  "scanLoop world packages i results
     = results @ map (\<lambda>j. scanOne (world j) (packages ! j)) [i..<length packages]"
proof (induction world packages i results rule: scanLoop.induct)
  case (1 world packages i results)
  show ?case
  proof (cases "i < length packages")
    case True
    then have "scanLoop world packages i results
        = scanLoop world packages (i + 1) (results @ [scanOne (world i) (packages ! i)])"
      by (simp del: scanLoop.simps add: scanLoop.simps[of world packages i results])
    also have "\<dots> = (results @ [scanOne (world i) (packages ! i)])
          @ map (\<lambda>j. scanOne (world j) (packages ! j)) [i + 1..<length packages]"
      using "1.IH"[OF True] .
    also have "\<dots> = results @ map (\<lambda>j. scanOne (world j) (packages ! j)) [i..<length packages]"
      using True by (simp add: upt_conv_Cons)
    finally show ?thesis .
  next
    case False
    then show ?thesis
      by (simp del: scanLoop.simps add: scanLoop.simps[of world packages i results])
  qed
qed

lemma scanPackages_map:
  "scanPackages world packages
     = map (\<lambda>j. scanOne (world j) (packages ! j)) [0..<length packages]"
  by (simp add: scanPackages_def scanLoop_map del: scanLoop.simps)

lemma scanPackages_nth:
  "i < length packages \<Longrightarrow> scanPackages world packages ! i = scanOne (world i) (packages ! i)"
  by (simp add: scanPackages_map)

lemma analysePackage_package: "analysePackage e pkg = Inr r \<Longrightarrow> package r = pkg"
  by (auto simp: analysePackage_def bind_err_def split: sum.splits prod.splits)

lemma scanOne_package: "package (scanOne e pkg) = pkg"
  by (cases "analysePackage e pkg") (simp_all add: scanOne_def degraded_def analysePackage_package)

text \<open>
  C1. For every list of packages, \<open>scanPackages\<close> returns a list of the same length
  whose entry \<open>i\<close> is the analysis of package \<open>i\<close>: the record the analysis built when
  it went through, and when it raised an exception the degraded record (trust score 0, the
  four breakdown fields 0, no vulnerabilities, the description Error during analysis).
  Each entry is what the scan of that package alone gives, so the other packages are
  analysed all the same and their entries do not change.
\<close>

theorem scan_degrades_per_package:
  "length (scanPackages world packages) = length packages
   \<and> (\<forall>i<length packages.
         package (scanPackages world packages ! i) = packages ! i
       \<and> (\<forall>r. analysePackage (world i) (packages ! i) = Inr r
              \<longrightarrow> scanPackages world packages ! i = r)
       \<and> (\<forall>err. analysePackage (world i) (packages ! i) = Inl err
              \<longrightarrow> trustScore (scanPackages world packages ! i) = 0
                \<and> trustScoreBreakdown (scanPackages world packages ! i)
                    = \<lparr> security = 0, maintenance = 0, popularity = 0, dependencies_pct = 0 \<rparr>
                \<and> pa_vulnerabilities (scanPackages world packages ! i) = []
                \<and> md_description (metadata (scanPackages world packages ! i))
                    = Some ''Error during analysis'')
       \<and> scanPackages (\<lambda>j. world i) [packages ! i] = [scanPackages world packages ! i])"
proof -
  have len: "length (scanPackages world packages) = length packages"
    by (simp add: scanPackages_map)
  have each: "package (scanPackages world packages ! i) = packages ! i
       \<and> (\<forall>r. analysePackage (world i) (packages ! i) = Inr r
              \<longrightarrow> scanPackages world packages ! i = r)
       \<and> (\<forall>err. analysePackage (world i) (packages ! i) = Inl err
              \<longrightarrow> trustScore (scanPackages world packages ! i) = 0
                \<and> trustScoreBreakdown (scanPackages world packages ! i)
                    = \<lparr> security = 0, maintenance = 0, popularity = 0, dependencies_pct = 0 \<rparr>
                \<and> pa_vulnerabilities (scanPackages world packages ! i) = []
                \<and> md_description (metadata (scanPackages world packages ! i))
                    = Some ''Error during analysis'')
       \<and> scanPackages (\<lambda>j. world i) [packages ! i] = [scanPackages world packages ! i]"
    if i: "i < length packages" for i
  proof -
    have n: "scanPackages world packages ! i = scanOne (world i) (packages ! i)"
      using i by (rule scanPackages_nth)
    have a: "package (scanPackages world packages ! i) = packages ! i"
      unfolding n by (rule scanOne_package)
    have b: "\<forall>r. analysePackage (world i) (packages ! i) = Inr r
              \<longrightarrow> scanPackages world packages ! i = r"
      unfolding n by (simp add: scanOne_def)
    have c: "\<forall>err. analysePackage (world i) (packages ! i) = Inl err
              \<longrightarrow> trustScore (scanPackages world packages ! i) = 0
                \<and> trustScoreBreakdown (scanPackages world packages ! i)
                    = \<lparr> security = 0, maintenance = 0, popularity = 0, dependencies_pct = 0 \<rparr>
                \<and> pa_vulnerabilities (scanPackages world packages ! i) = []
                \<and> md_description (metadata (scanPackages world packages ! i))
                    = Some ''Error during analysis''"
      unfolding n by (simp add: scanOne_def degraded_def emptyMetadata_def)
    have d: "scanPackages (\<lambda>j. world i) [packages ! i] = [scanPackages world packages ! i]"
      unfolding n by (simp add: scanPackages_map)
    from a b c d show ?thesis by (intro conjI)
  qed
  from len each show ?thesis by blast
qed

lemma offline_npm_data:
  "ecosystem pkg = npm \<Longrightarrow> fetchPackageData offline pkg = Inr (emptyMetadata, zeroDownloadStats)"
  by (simp add: fetchPackageData_def bind_err_def offline_def)

lemma offline_stats: "fetchRepositoryStats offline emptyMetadata = Inr (emptyMetadata, None)"
  by (simp add: fetchRepositoryStats_def emptyMetadata_def truthy_def)

lemma offline_description:
  "generateAIDescription offline n eco emptyMetadata gs = Inr ''No description available''"
  by (simp add: offline_def orDefault_def truthy_def emptyMetadata_def)

lemma analyse_constructor:
  "analysePackage offline pkgConstructor
     = Inl (TypeError ''vulnerabilities.filter is not a function'')"
proof -
  have "ecosystem pkgConstructor = npm" by (simp add: pkgConstructor_def)
  then show ?thesis
    by (simp add: analysePackage_def offline_npm_data offline_stats offline_constructor
          scoreFetched_def bind_err_def)
qed

lemma analyse_leftpad: "\<exists>r. analysePackage offline pkgLeftPad = Inr r"
proof -
  have "ecosystem pkgLeftPad = npm" by (simp add: pkgLeftPad_def)
  then show ?thesis
    by (simp add: analysePackage_def offline_npm_data offline_stats offline_leftpad
          offline_description scoreFetched_def bind_err_def)
qed

theorem scan_degrades_per_package_witness:
  "length (scanPackages offlineWorld [pkgConstructor, pkgLeftPad]) = 2
   \<and> analysePackage (offlineWorld 0) pkgConstructor
       = Inl (TypeError ''vulnerabilities.filter is not a function'')
   \<and> package (scanPackages offlineWorld [pkgConstructor, pkgLeftPad] ! 0) = pkgConstructor
   \<and> trustScore (scanPackages offlineWorld [pkgConstructor, pkgLeftPad] ! 0) = 0
   \<and> pa_vulnerabilities (scanPackages offlineWorld [pkgConstructor, pkgLeftPad] ! 0) = []
   \<and> md_description (metadata (scanPackages offlineWorld [pkgConstructor, pkgLeftPad] ! 0))
       = Some ''Error during analysis''
   \<and> package (scanPackages offlineWorld [pkgConstructor, pkgLeftPad] ! 1) = pkgLeftPad
   \<and> analysePackage (offlineWorld 1) pkgLeftPad
       = Inr (scanPackages offlineWorld [pkgConstructor, pkgLeftPad] ! 1)"
proof -
  note T = scan_degrades_per_package [of offlineWorld "[pkgConstructor, pkgLeftPad]"]
  have z: "0 < length [pkgConstructor, pkgLeftPad]" by simp
  have o: "1 < length [pkgConstructor, pkgLeftPad]" by simp
  note A = T [THEN conjunct2, rule_format, OF z]
  note B = T [THEN conjunct2, rule_format, OF o]
  have c: "analysePackage (offlineWorld 0) pkgConstructor
       = Inl (TypeError ''vulnerabilities.filter is not a function'')"
    by (simp add: offlineWorld_def analyse_constructor)
  obtain r where r: "analysePackage (offlineWorld 1) pkgLeftPad = Inr r"
    using analyse_leftpad by (auto simp: offlineWorld_def)
  have r1: "scanPackages offlineWorld [pkgConstructor, pkgLeftPad] ! 1 = r"
    using B r by simp
  have len: "length (scanPackages offlineWorld [pkgConstructor, pkgLeftPad]) = 2"
    using T by simp
  have p0: "package (scanPackages offlineWorld [pkgConstructor, pkgLeftPad] ! 0) = pkgConstructor"
    using A by simp
  have p1: "package (scanPackages offlineWorld [pkgConstructor, pkgLeftPad] ! 1) = pkgLeftPad"
    using B by simp
  have d: "trustScore (scanPackages offlineWorld [pkgConstructor, pkgLeftPad] ! 0) = 0
     \<and> pa_vulnerabilities (scanPackages offlineWorld [pkgConstructor, pkgLeftPad] ! 0) = []
     \<and> md_description (metadata (scanPackages offlineWorld [pkgConstructor, pkgLeftPad] ! 0))
         = Some ''Error during analysis''"
    using A c by simp
  from len c p0 d p1 r r1 show ?thesis by simp
qed

end
